theory Spec2Isabelle
  imports Main "HOL-Library.List_Lexorder" "HOL-Library.Char_ord"
begin

section \<open>Strings\<close>

text \<open>
  Python strings are modelled as \<open>string\<close>, a character standing for a code point below
  256. The program changes the case of the registry extensions only (\<open>str.upper\<close>) and
  lowers a prompt answer only to compare it with \<open>'y'\<close>, so \<open>str.upper\<close> and
  \<open>str.lower\<close> are modelled on the ASCII letters and leave every other character alone:
  no other character becomes \<open>y\<close> when lowered.
\<close>

definition ascii_lowercase :: string where
  "ascii_lowercase = ''abcdefghijklmnopqrstuvwxyz''"

definition ascii_uppercase :: string where
  "ascii_uppercase = ''ABCDEFGHIJKLMNOPQRSTUVWXYZ''"

definition upper_char :: "char \<Rightarrow> char" where
  "upper_char c =
     (case map_of (zip ascii_lowercase ascii_uppercase) c of Some u \<Rightarrow> u | None \<Rightarrow> c)"

definition lower_char :: "char \<Rightarrow> char" where
  "lower_char c =
     (case map_of (zip ascii_uppercase ascii_lowercase) c of Some l \<Rightarrow> l | None \<Rightarrow> c)"

definition upper :: "string \<Rightarrow> string" where
  "upper s = map upper_char s"

definition lower :: "string \<Rightarrow> string" where
  "lower s = map lower_char s"

definition endswith :: "string \<Rightarrow> string \<Rightarrow> bool" where
  "endswith s sfx = (length sfx \<le> length s \<and> drop (length s - length sfx) s = sfx)"

text \<open>
  The characters \<open>str.strip()\<close> removes: those for which \<open>str.isspace\<close> holds, among
  the code points below 256.
\<close>

definition is_space :: "char \<Rightarrow> bool" where
  "is_space c =
     (c \<in> set [CHR '' '', CHR 0x09, CHR 0x0A, CHR 0x0B, CHR 0x0C, CHR 0x0D,
                CHR 0x1C, CHR 0x1D, CHR 0x1E, CHR 0x1F, CHR 0x85, CHR 0xA0])"

definition strip :: "string \<Rightarrow> string" where
  "strip s = rev (dropWhile is_space (rev (dropWhile is_space s)))"

text \<open>\<open>s.rfind(c)\<close>: the index of the last occurrence of \<open>c\<close>, \<open>None\<close> for Python's -1.\<close>

definition rfind :: "string \<Rightarrow> char \<Rightarrow> nat option" where
  "rfind s c =
     (if c \<in> set s then Some (length s - 1 - length (takeWhile (\<lambda>x. x \<noteq> c) (rev s)))
      else None)"

text \<open>\<open>s.split('/')\<close> and \<open>'/'.join(xs)\<close>.\<close>

fun split_sep :: "string \<Rightarrow> string list" where
  "split_sep [] = [[]]"
| "split_sep (c # cs) =
     (if c = CHR ''/'' then [] # split_sep cs
      else (case split_sep cs of [] \<Rightarrow> [[c]] | w # ws \<Rightarrow> (c # w) # ws))"

fun join_sep :: "string list \<Rightarrow> string" where
  "join_sep [] = []"
| "join_sep [x] = x"
| "join_sep (x # y # ys) = x @ ''/'' @ join_sep (y # ys)"

section \<open>Paths (pathlib, POSIX flavour)\<close>

text \<open>
  A \<open>pathlib.Path\<close> is its root (\<open>''\<close>, \<open>'/'\<close> or \<open>'//'\<close>) and its components.
  The program is written for macOS, so the POSIX flavour is modelled: no drive, and
  pattern matching is case-sensitive.
\<close>

record path =
  root :: string
  names :: "string list"

text \<open>
  Exceptions (subclasses of \<open>Exception\<close>, which is what the converters catch), and the
  two ways a piece of the program ends without returning: an exception leaves it, or the
  argument parser exits the process with a status.
\<close>

datatype exn =
    ValueError string
  | EOFError
  | OSError string
  | UnidentifiedImageError string
  | UnicodeEncodeError

datatype abort = Raised exn | Exit nat

definition splitroot :: "string \<Rightarrow> string \<times> string" where
  "splitroot part =
     (if part \<noteq> [] \<and> hd part = CHR ''/'' then
        (let stripped_part = dropWhile (\<lambda>c. c = CHR ''/'') part in
         if length part - length stripped_part = 2 then (''//'', stripped_part)
         else (''/'', stripped_part))
      else ([], part))"

definition Path :: "string \<Rightarrow> path" where
  "Path s =
     (case splitroot s of (r, rel) \<Rightarrow>
        \<lparr>root = r, names = filter (\<lambda>x. x \<noteq> [] \<and> x \<noteq> ''.'') (split_sep rel)\<rparr>)"

definition str_path :: "path \<Rightarrow> string" where
  "str_path p = (if root p = [] \<and> names p = [] then ''.'' else root p @ join_sep (names p))"

definition name :: "path \<Rightarrow> string" where
  "name p = (if names p = [] then [] else last (names p))"

definition path_suffix :: "path \<Rightarrow> string" where
  "path_suffix p =
     (case rfind (name p) CHR ''.'' of
        None \<Rightarrow> []
      | Some i \<Rightarrow> if 0 < i \<and> i < length (name p) - 1 then drop i (name p) else [])"

definition with_suffix :: "path \<Rightarrow> string \<Rightarrow> exn + path" where
  "with_suffix p sfx =
     (if CHR ''/'' \<in> set sfx then Inl (ValueError ''Invalid suffix'')
      else if (sfx \<noteq> [] \<and> hd sfx \<noteq> CHR ''.'') \<or> sfx = ''.'' then Inl (ValueError ''Invalid suffix'')
      else if name p = [] then Inl (ValueError ''empty name'')
      else
        (let old_suffix = path_suffix p;
             new_name = (if old_suffix = [] then name p @ sfx
                         else take (length (name p) - length old_suffix) (name p) @ sfx)
         in Inr (p\<lparr>names := butlast (names p) @ [new_name]\<rparr>)))"

text \<open>\<open>p / s\<close> for a string \<open>s\<close>.\<close>

definition joinpath :: "path \<Rightarrow> string \<Rightarrow> path" where
  "joinpath p s = (let q = Path s in if root q \<noteq> [] then q else p\<lparr>names := names p @ names q\<rparr>)"

text \<open>
  The converters take a path that is either a string or a \<open>Path\<close> object;
  \<open>fspath\<close> is what the library (and an f-string) reads of it, \<open>as_Path\<close> is \<open>Path(x)\<close>.
\<close>

datatype pathlike = Str string | PathObj path

fun fspath :: "pathlike \<Rightarrow> string" where
  "fspath (Str s) = s"
| "fspath (PathObj p) = str_path p"

fun as_Path :: "pathlike \<Rightarrow> path" where
  "as_Path (Str s) = Path s"
| "as_Path (PathObj p) = p"

text \<open>
  \<open>os.path.splitext(p)[0]\<close>: the part before the last dot of the last component, leading
  dots of that component not counting as an extension.
\<close>

definition splitext_root :: "string \<Rightarrow> string" where
  "splitext_root p =
     (let filenameIndex = (case rfind p CHR ''/'' of None \<Rightarrow> 0 | Some i \<Rightarrow> i + 1) in
      case rfind p CHR ''.'' of
        None \<Rightarrow> p
      | Some dotIndex \<Rightarrow>
          if filenameIndex \<le> dotIndex
             \<and> (\<exists>c \<in> set (take (dotIndex - filenameIndex) (drop filenameIndex p)). c \<noteq> CHR ''.'')
          then take dotIndex p else p)"

section \<open>Images and the imaging library\<close>

text \<open>
  An image handle has the attributes the program reads, \<open>mode\<close> and \<open>size\<close>, and its
  pixel content. The content is kept symbolic: it records which library operations produced
  it and with which arguments, which is all the program decides. \<open>FileData s\<close> is the
  content of the file \<open>s\<close>, which the library decodes lazily: \<open>Image.open\<close> reads the
  header only, and the pixels are decoded by the first operation that needs them, which is
  where a truncated file raises. \<open>n_frames\<close> is the attribute of that name, absent
  (\<open>None\<close>) on formats with one frame and on every image made in memory.
\<close>

datatype pixels =
    FileData string
  | Solid "nat \<times> nat \<times> nat"
  | Conv pixels string
  | LastBand pixels
  | Paste pixels pixels "pixels option"
  | Thumbnailed pixels "nat \<times> nat"

record image =
  mode :: string
  size_px :: "nat \<times> nat"
  data :: pixels
  n_frames :: "nat option"

text \<open>
  What \<open>save\<close> was asked to write: the image it was called on followed by the appended
  ones, and the parameters. With \<open>save_all\<close> the PDF encoder writes every frame of every
  image, one page each; without it, one page for the one image.
\<close>

record pdf =
  images :: "image list"
  save_all :: bool
  resolution :: nat
  pdf_quality :: "int option"

definition frames_of :: "image \<Rightarrow> nat" where
  "frames_of im = (case n_frames im of None \<Rightarrow> 1 | Some n \<Rightarrow> n)"

definition pdf_pages :: "pdf \<Rightarrow> (image \<times> nat) list" where
  "pdf_pages d =
     (if save_all d then concat (map (\<lambda>im. map (\<lambda>i. (im, i)) [0 ..< frames_of im]) (images d))
      else map (\<lambda>im. (im, 0)) (images d))"

definition page_count :: "pdf \<Rightarrow> nat" where
  "page_count d = length (pdf_pages d)"

text \<open>Everything a run does that can be seen from outside, in order.\<close>

datatype message =
    Converted string string
  | ErrorConverting string exn
  | CreatedMultiPage string nat
  | ErrorCreatingMultiPage exn
  | SupportedFormatsHeader
  | FormatLine string
  | Help
  | UsageError "string list"
  | NoSupportedImages string
  | FoundImages nat
  | NotADirectory string
  | NoFilesMatching string
  | FileNotFound string
  | AskInteractive
  | SimpleUsage
  | SimpleUsageTerminal
  | SimpleConverted string string
  | SimpleError string exn
  | SimpleNotFound string
  | PressEnter

text \<open>
  \<open>Open_output f\<close>: the file \<open>f\<close> was opened for writing, so it was created or its old
  content is gone. \<open>Write f d\<close>: the document \<open>d\<close> was written to \<open>f\<close> completely.
  An \<open>Open_output\<close> that no \<open>Write\<close> follows leaves no document at \<open>f\<close>.
\<close>

datatype event =
    Print message
  | Open_output string
  | Write string pdf
  | Input message
  | Call_interactive_mode

text \<open>
  A run of a piece of the program: the value it returned or the exception that left it,
  and what it did.
\<close>

type_synonym 'a run = "(abort + 'a) \<times> event list"

record args =
  input_arg :: "string option"
  output_arg :: "string option"
  multi :: "string option"
  directory :: bool
  resize_a4 :: bool
  quality :: int
  list_formats :: bool

text \<open>
  What the program cannot decide itself is a parameter: the files there are, what opening
  one gives, which files fail to decode, which conversions the library refuses, the size
  the library's \<open>thumbnail\<close> computes, which output files cannot be opened and which
  documents fail while being written, which lines the standard output refuses (one it
  cannot encode), the lines waiting on standard input, and what \<open>argparse\<close> makes of a
  command line (the parsed arguments, or the exit with what it printed).
\<close>

record env =
  image_open :: "string \<Rightarrow> exn + image"
  load_error :: "string \<Rightarrow> exn option"
  convert_error :: "image \<Rightarrow> string \<Rightarrow> exn option"
  thumbnail_size :: "nat \<times> nat \<Rightarrow> nat \<times> nat \<Rightarrow> nat \<times> nat"
  open_error :: "string \<Rightarrow> exn option"
  encode_error :: "string \<Rightarrow> pdf \<Rightarrow> exn option"
  print_error :: "message \<Rightarrow> exn option"
  is_dir :: "string \<Rightarrow> bool"
  path_exists :: "string \<Rightarrow> bool"
  scandir :: "string \<Rightarrow> string list"
  glob_glob :: "string \<Rightarrow> string list"
  stdin :: "string list"
  parse_args :: "string list \<Rightarrow> args run"

subsection \<open>Sequencing\<close>

definition ret :: "'a \<Rightarrow> 'a run" where
  "ret v = (Inr v, [])"

definition lift :: "exn + 'a \<Rightarrow> 'a run" where
  "lift r = (case r of Inl x \<Rightarrow> (Inl (Raised x), []) | Inr v \<Rightarrow> (Inr v, []))"

definition and_then :: "'a run \<Rightarrow> ('a \<Rightarrow> 'b run) \<Rightarrow> 'b run" where
  "and_then m f =
     (case m of
        (Inl x, evs) \<Rightarrow> (Inl x, evs)
      | (Inr v, evs) \<Rightarrow> (case f v of (r, evs') \<Rightarrow> (r, evs @ evs')))"

text \<open>\<open>try: m except Exception as x: h\<close>.\<close>

definition try_except :: "'a run \<Rightarrow> (exn \<Rightarrow> 'a run) \<Rightarrow> 'a run" where
  "try_except m h =
     (case m of
        (Inl (Raised x), evs) \<Rightarrow> (case h x of (r, evs') \<Rightarrow> (r, evs @ evs'))
      | (Inl (Exit c), evs) \<Rightarrow> (Inl (Exit c), evs)
      | (Inr v, evs) \<Rightarrow> (Inr v, evs))"

text \<open>\<open>print(m)\<close> and \<open>input(m)\<close>.\<close>

definition print_line :: "env \<Rightarrow> message \<Rightarrow> unit run" where
  "print_line e m =
     (case print_error e m of Some x \<Rightarrow> (Inl (Raised x), []) | None \<Rightarrow> (Inr (), [Print m]))"

definition input_line :: "env \<Rightarrow> message \<Rightarrow> string run" where
  "input_line e m =
     (case stdin e of [] \<Rightarrow> (Inl (Raised EOFError), [Input m]) | line # _ \<Rightarrow> (Inr line, [Input m]))"

subsection \<open>Library operations\<close>

text \<open>\<open>im.load()\<close>: decoding the pixels of a file image can fail; others are in memory.\<close>

definition load :: "env \<Rightarrow> image \<Rightarrow> exn option" where
  "load e im = (case data im of FileData s \<Rightarrow> load_error e s | _ \<Rightarrow> None)"

text \<open>\<open>Image.new(mode, size, color)\<close>.\<close>

definition Image_new :: "string \<Rightarrow> nat \<times> nat \<Rightarrow> nat \<times> nat \<times> nat \<Rightarrow> image" where
  "Image_new m sz c = \<lparr>mode = m, size_px = sz, data = Solid c, n_frames = None\<rparr>"

text \<open>
  \<open>im.convert(mode)\<close>: loads the image and gives a new one of that mode and the same
  size, or raises.
\<close>

definition convert :: "env \<Rightarrow> image \<Rightarrow> string \<Rightarrow> exn + image" where
  "convert e im m =
     (case load e im of
        Some x \<Rightarrow> Inl x
      | None \<Rightarrow>
          (case convert_error e im m of
             Some x \<Rightarrow> Inl x
           | None \<Rightarrow> Inr \<lparr>mode = m, size_px = size_px im, data = Conv (data im) m, n_frames = None\<rparr>))"

text \<open>\<open>im.split()[-1]\<close>: loads the image; the last band is a single-band image of its size.\<close>

definition split_last :: "env \<Rightarrow> image \<Rightarrow> exn + image" where
  "split_last e im =
     (case load e im of
        Some x \<Rightarrow> Inl x
      | None \<Rightarrow> Inr \<lparr>mode = ''L'', size_px = size_px im, data = LastBand (data im), n_frames = None\<rparr>)"

text \<open>
  \<open>background.paste(im, mask=m)\<close> loads \<open>im\<close> and changes the content of
  \<open>background\<close> in place.
\<close>

definition paste :: "env \<Rightarrow> image \<Rightarrow> image \<Rightarrow> image option \<Rightarrow> exn + image" where
  "paste e background im msk =
     (case load e im of
        Some x \<Rightarrow> Inl x
      | None \<Rightarrow>
          Inr (background\<lparr>data := Paste (data background) (data im) (map_option data msk)\<rparr>))"

text \<open>
  \<open>im.thumbnail(box, LANCZOS)\<close>: the library computes the new size; when that is the size
  the image has, nothing happens and nothing is decoded, otherwise the image is loaded and
  its size and content change in place. Mode and frames stay.
\<close>

definition thumbnail :: "env \<Rightarrow> image \<Rightarrow> nat \<times> nat \<Rightarrow> exn + image" where
  "thumbnail e im box =
     (let sz = thumbnail_size e (size_px im) box in
      if sz = size_px im then Inr im
      else
        (case load e im of
           Some x \<Rightarrow> Inl x
         | None \<Rightarrow> Inr (im\<lparr>size_px := sz, data := Thumbnailed (data im) box\<rparr>)))"

text \<open>
  \<open>first.save(f, 'PDF', resolution=100.0, ...)\<close>. The image the call is made on is loaded
  first; then the output file is opened for writing; then the document is encoded into it,
  which loads the appended images. A failure after the file was opened leaves the
  \<open>Open_output\<close> behind.
\<close>

fun first_error :: "exn option list \<Rightarrow> exn option" where
  "first_error [] = None"
| "first_error (Some x # rest) = Some x"
| "first_error (None # rest) = first_error rest"

definition save :: "env \<Rightarrow> image \<Rightarrow> image list \<Rightarrow> bool \<Rightarrow> string \<Rightarrow> int option \<Rightarrow> unit run" where
  "save e first append_images all f q =
     (let doc = \<lparr>images = first # append_images, save_all = all, resolution = 100, pdf_quality = q\<rparr> in
      case load e first of
        Some x \<Rightarrow> (Inl (Raised x), [])
      | None \<Rightarrow>
          (case open_error e f of
             Some x \<Rightarrow> (Inl (Raised x), [])
           | None \<Rightarrow>
               (case first_error (map (load e) append_images) of
                  Some x \<Rightarrow> (Inl (Raised x), [Open_output f])
                | None \<Rightarrow>
                    (case encode_error e f doc of
                       Some x \<Rightarrow> (Inl (Raised x), [Open_output f])
                     | None \<Rightarrow> (Inr (), [Open_output f, Write f doc])))))"

definition a4_size :: "nat \<times> nat" where
  "a4_size = (2480, 3508)"

section \<open>The converters\<close>

text \<open>
  The colour normalisation block, written out three times in the source
  (\<open>convert_image_to_pdf\<close>, \<open>convert_multiple_images_to_pdf\<close> and the simple converter).
\<close>

definition color_normalize :: "env \<Rightarrow> image \<Rightarrow> exn + image" where
  "color_normalize e im =
     (if mode im \<in> set [''RGBA'', ''LA'', ''P''] then
        (let background = Image_new ''RGB'' (size_px im) (255, 255, 255) in
         case (if mode im = ''P'' then convert e im ''RGBA'' else Inr im) of
           Inl x \<Rightarrow> Inl x
         | Inr im' \<Rightarrow>
             (case (if mode im' = ''RGBA'' then map_sum id Some (split_last e im') else Inr None) of
                Inl x \<Rightarrow> Inl x
              | Inr msk \<Rightarrow> paste e background im' msk))
      else if mode im \<noteq> ''RGB'' then convert e im ''RGB''
      else Inr im)"

text \<open>Open, normalise and optionally resize one image: the part before saving.\<close>

definition prepare :: "env \<Rightarrow> pathlike \<Rightarrow> bool \<Rightarrow> exn + image" where
  "prepare e image_path resize_to_a4 =
     (case image_open e (fspath image_path) of
        Inl x \<Rightarrow> Inl x
      | Inr im \<Rightarrow>
          (case color_normalize e im of
             Inl x \<Rightarrow> Inl x
           | Inr im' \<Rightarrow> if resize_to_a4 then thumbnail e im' a4_size else Inr im'))"

text \<open>The output path of a single conversion: the one given, or the input with \<open>.pdf\<close>.\<close>

definition output_path :: "pathlike \<Rightarrow> pathlike option \<Rightarrow> exn + pathlike" where
  "output_path image_path pdf_path =
     (case pdf_path of
        None \<Rightarrow> map_sum id PathObj (with_suffix (as_Path image_path) ''.pdf'')
      | Some p \<Rightarrow> Inr p)"

definition convert_image_to_pdf ::
  "env \<Rightarrow> pathlike \<Rightarrow> pathlike option \<Rightarrow> bool \<Rightarrow> int \<Rightarrow> pathlike option run" where
  "convert_image_to_pdf e image_path pdf_path resize_to_a4 q =
     try_except
       (and_then (lift (prepare e image_path resize_to_a4)) (\<lambda>im.
        and_then (lift (output_path image_path pdf_path)) (\<lambda>out.
        and_then (save e im [] False (fspath out) (Some q)) (\<lambda>_.
        and_then (print_line e (Converted (name (as_Path image_path)) (name (as_Path out)))) (\<lambda>_.
        ret (Some out))))))
       (\<lambda>x. and_then (print_line e (ErrorConverting (fspath image_path) x)) (\<lambda>_. ret None))"

text \<open>The loop of \<open>convert_multiple_images_to_pdf\<close>; \<open>imgs\<close> is the list built so far.\<close>

fun load_images :: "env \<Rightarrow> bool \<Rightarrow> pathlike list \<Rightarrow> image list \<Rightarrow> exn + image list" where
  "load_images e resize_to_a4 [] imgs = Inr imgs"
| "load_images e resize_to_a4 (img_path # rest) imgs =
     (case prepare e img_path resize_to_a4 of
        Inl x \<Rightarrow> Inl x
      | Inr img \<Rightarrow> load_images e resize_to_a4 rest (imgs @ [img]))"

text \<open>
  Inside the \<open>try\<close> the function returns \<open>True\<close> after a save; in every other case it
  falls through to the final \<open>return False\<close>.
\<close>

definition convert_multiple_images_to_pdf ::
  "env \<Rightarrow> pathlike list \<Rightarrow> pathlike \<Rightarrow> bool \<Rightarrow> int \<Rightarrow> bool run" where
  "convert_multiple_images_to_pdf e image_paths output_pdf resize_to_a4 q =
     try_except
       (and_then (lift (load_images e resize_to_a4 image_paths [])) (\<lambda>imgs.
          case imgs of
            [] \<Rightarrow> ret False
          | first # append_images \<Rightarrow>
              and_then (save e first append_images True (fspath output_pdf) (Some q)) (\<lambda>_.
              and_then (print_line e (CreatedMultiPage (fspath output_pdf) (length imgs))) (\<lambda>_.
              ret True))))
       (\<lambda>x. and_then (print_line e (ErrorCreatingMultiPage x)) (\<lambda>_. ret False))"

definition get_supported_formats :: "string list" where
  "get_supported_formats = [''.jpg'', ''.jpeg'', ''.png'', ''.bmp'', ''.gif'', ''.tiff'', ''.webp'']"

section \<open>The command-line driver\<close>

text \<open>
  In the parsed arguments an option that takes a value and was not given is \<open>None\<close>;
  \<open>-m\<close>, \<open>-o\<close> and the positional input may also be empty strings, which Python treats
  as false like \<open>None\<close>.
\<close>

definition truthy :: "string option \<Rightarrow> bool" where
  "truthy v = (case v of None \<Rightarrow> False | Some s \<Rightarrow> s \<noteq> [])"

definition arg_value :: "string option \<Rightarrow> string" where
  "arg_value v = (case v of None \<Rightarrow> [] | Some s \<Rightarrow> s)"

text \<open>
  \<open>p.glob('*' + sfx)\<close> for a suffix without pattern characters: the entries of the directory
  whose name ends with \<open>sfx\<close>, in the order the system lists them.
\<close>

definition glob_star :: "env \<Rightarrow> path \<Rightarrow> string \<Rightarrow> path list" where
  "glob_star e p sfx =
     map (\<lambda>n. p\<lparr>names := names p @ [n]\<rparr>) (filter (\<lambda>n. endswith n sfx) (scandir e (str_path p)))"

text \<open>The directory scan of \<open>main\<close>: for each registry entry, the pattern and its upper case.\<close>

definition scan_directory :: "env \<Rightarrow> path \<Rightarrow> path list" where
  "scan_directory e input_path =
     concat (map (\<lambda>fmt. glob_star e input_path fmt @ glob_star e input_path (upper fmt))
               get_supported_formats)"

text \<open>
  The loop that converts each file of a directory on its own. \<open>with_suffix\<close> is called
  outside the converter's \<open>try\<close>, so its exception would leave \<open>main\<close>, and so does an
  exception that leaves the converter.
\<close>

fun convert_each :: "env \<Rightarrow> path list \<Rightarrow> bool \<Rightarrow> int \<Rightarrow> unit run" where
  "convert_each e [] a4 q = (Inr (), [])"
| "convert_each e (img_file # rest) a4 q =
     (case with_suffix img_file ''.pdf'' of
        Inl x \<Rightarrow> (Inl (Raised x), [])
      | Inr pdf_file \<Rightarrow>
          (case convert_image_to_pdf e (PathObj img_file) (Some (PathObj pdf_file)) a4 q of
             (Inl x, evs) \<Rightarrow> (Inl x, evs)
           | (Inr r, evs) \<Rightarrow>
               (case convert_each e rest a4 q of (r', evs') \<Rightarrow> (r', evs @ evs'))))"

text \<open>The loop that prints the registry.\<close>

fun print_formats :: "env \<Rightarrow> string list \<Rightarrow> unit run" where
  "print_formats e [] = (Inr (), [])"
| "print_formats e (fmt # rest) =
     (case print_line e (FormatLine fmt) of
        (Inl x, evs) \<Rightarrow> (Inl x, evs)
      | (Inr r, evs) \<Rightarrow> (case print_formats e rest of (r', evs') \<Rightarrow> (r', evs @ evs')))"

text \<open>
  \<open>main\<close> on the command line \<open>sys.argv[1:]\<close>. The parser comes first: on \<open>-h\<close> and on
  a command line it rejects it prints and exits, and \<open>main\<close> ends there. The interactive
  menu is a separate function of the source; the driver's part is the prompt and the call.
\<close>

definition main :: "env \<Rightarrow> string list \<Rightarrow> unit run" where
  "main e argv =
     and_then (parse_args e argv) (\<lambda>a.
       if list_formats a then
         and_then (print_line e SupportedFormatsHeader) (\<lambda>_.
         print_formats e get_supported_formats)
       else if \<not> truthy (input_arg a) \<and> argv = [] then
         and_then (print_line e Help) (\<lambda>_.
         and_then (input_line e AskInteractive) (\<lambda>response.
         if lower (strip response) = ''y'' then (Inr (), [Call_interactive_mode]) else ret ()))
       else if directory a \<and> truthy (input_arg a) then
         (let input_path = Path (arg_value (input_arg a)) in
          if is_dir e (str_path input_path) then
            (let image_files = scan_directory e input_path in
             if image_files = [] then print_line e (NoSupportedImages (arg_value (input_arg a)))
             else
               and_then (print_line e (FoundImages (length image_files))) (\<lambda>_.
               if truthy (multi a) then
                 (let output_pdf = (if truthy (multi a) then Str (arg_value (multi a))
                                    else PathObj (joinpath input_path ''combined.pdf''))
                  in and_then (convert_multiple_images_to_pdf e (map PathObj image_files) output_pdf
                                 (resize_a4 a) (quality a)) (\<lambda>_. ret ()))
               else convert_each e image_files (resize_a4 a) (quality a)))
          else print_line e (NotADirectory (arg_value (input_arg a))))
       else if truthy (multi a) \<and> truthy (input_arg a) then
         (let image_files = sort (glob_glob e (arg_value (input_arg a))) in
          if image_files = [] then print_line e (NoFilesMatching (arg_value (input_arg a)))
          else
            and_then (convert_multiple_images_to_pdf e (map Str image_files)
                        (Str (arg_value (multi a))) (resize_a4 a) (quality a)) (\<lambda>_. ret ()))
       else if truthy (input_arg a) then
         (let input_path = Path (arg_value (input_arg a)) in
          if \<not> path_exists e (str_path input_path)
          then print_line e (FileNotFound (arg_value (input_arg a)))
          else
            and_then (convert_image_to_pdf e (Str (arg_value (input_arg a)))
                        (map_option Str (output_arg a)) (resize_a4 a) (quality a)) (\<lambda>_. ret ()))
       else ret ())"

section \<open>The simple converter\<close>

definition basename :: "string \<Rightarrow> string" where
  "basename p = (case rfind p CHR ''/'' of None \<Rightarrow> p | Some i \<Rightarrow> drop (i + 1) p)"

definition simple_convert :: "env \<Rightarrow> string \<Rightarrow> unit run" where
  "simple_convert e img_path =
     (if path_exists e img_path then
        try_except
          (and_then (lift (image_open e img_path)) (\<lambda>img.
           and_then (lift (color_normalize e img)) (\<lambda>img'.
           (let pdf_path = splitext_root img_path @ ''.pdf'' in
            and_then (save e img' [] False pdf_path None) (\<lambda>_.
            print_line e (SimpleConverted (basename img_path) (basename pdf_path))))))) 
          (\<lambda>x. print_line e (SimpleError img_path x))
      else print_line e (SimpleNotFound img_path))"

fun simple_convert_all :: "env \<Rightarrow> string list \<Rightarrow> unit run" where
  "simple_convert_all e [] = (Inr (), [])"
| "simple_convert_all e (img_path # rest) =
     (case simple_convert e img_path of
        (Inl x, evs) \<Rightarrow> (Inl x, evs)
      | (Inr r, evs) \<Rightarrow> (case simple_convert_all e rest of (r', evs') \<Rightarrow> (r', evs @ evs')))"

definition simple_main :: "env \<Rightarrow> string list \<Rightarrow> unit run" where
  "simple_main e argv =
     (if argv = [] then
        and_then (print_line e SimpleUsage) (\<lambda>_.
        and_then (print_line e SimpleUsageTerminal) (\<lambda>_.
        and_then (input_line e PressEnter) (\<lambda>_. ret ())))
      else simple_convert_all e argv)"

section \<open>A concrete environment\<close>

text \<open>
  A small file system on which the theorems below are exercised: a directory \<open>pics\<close>
  with five entries, one of them a file that does not open; an image with luminance and
  alpha; a truncated photo, which opens and fails to decode; a scan of two pages in one
  RGB file; a library that accepts every conversion and every write; a terminal that
  prints every line; and an argument parser given by what \<open>argparse\<close> returns on the
  command lines used below, which rejects every other one, as \<open>argparse\<close> rejects
  \<open>-q abc\<close> and a bare \<open>-m\<close>.
\<close>

definition demo_open :: "string \<Rightarrow> exn + image" where
  "demo_open s =
     (if s = ''pics/bad.jpg'' \<or> s = ''bad.jpg'' then Inl (UnidentifiedImageError s)
      else if s = ''notes.txt'' then Inl (UnidentifiedImageError s)
      else if s = ''logo.png''
        then Inr \<lparr>mode = ''LA'', size_px = (64, 64), data = FileData s, n_frames = Some 1\<rparr>
      else if s = ''icon.gif''
        then Inr \<lparr>mode = ''P'', size_px = (32, 32), data = FileData s, n_frames = Some 1\<rparr>
      else if s = ''scan.bmp''
        then Inr \<lparr>mode = ''L'', size_px = (100, 200), data = FileData s, n_frames = None\<rparr>
      else if s = ''scan.tiff''
        then Inr \<lparr>mode = ''RGB'', size_px = (1240, 1754), data = FileData s, n_frames = Some 2\<rparr>
      else if s = ''poster.jpg''
        then Inr \<lparr>mode = ''RGB'', size_px = (4960, 7016), data = FileData s, n_frames = None\<rparr>
      else Inr \<lparr>mode = ''RGB'', size_px = (640, 480), data = FileData s, n_frames = None\<rparr>)"

definition demo_args :: args where
  "demo_args =
     \<lparr>input_arg = None, output_arg = None, multi = None, directory = False,
      resize_a4 = False, quality = 95, list_formats = False\<rparr>"

definition demo_dir_args :: args where
  "demo_dir_args = demo_args\<lparr>input_arg := Some ''pics'', directory := True\<rparr>"

definition demo_parse :: "string list \<Rightarrow> args run" where
  "demo_parse argv =
     (if argv = [] then (Inr demo_args, [])
      else if argv = [''-a4'', ''-q'', ''80'']
        then (Inr (demo_args\<lparr>resize_a4 := True, quality := 80\<rparr>), [])
      else if argv = [''-l''] then (Inr (demo_args\<lparr>list_formats := True\<rparr>), [])
      else if argv = [''-a4'', ''-l'']
        then (Inr (demo_args\<lparr>resize_a4 := True, list_formats := True\<rparr>), [])
      else if argv = [''-d'', ''pics''] then (Inr demo_dir_args, [])
      else if argv = [''-d'', ''pics'', ''-m'', []] then (Inr (demo_dir_args\<lparr>multi := Some []\<rparr>), [])
      else if argv = [''-h''] then (Inl (Exit 0), [Print Help])
      else (Inl (Exit 2), [Print (UsageError argv)]))"

definition demo_env :: env where
  "demo_env =
     \<lparr>image_open = demo_open,
      load_error = (\<lambda>s. if s = ''cut.jpg'' then Some (OSError ''image file is truncated'') else None),
      convert_error = (\<lambda>im m. None),
      thumbnail_size = (\<lambda>sz box. if fst sz \<le> fst box \<and> snd sz \<le> snd box then sz else box),
      open_error = (\<lambda>f. None),
      encode_error = (\<lambda>f d. None),
      print_error = (\<lambda>m. None),
      is_dir = (\<lambda>s. s = ''pics''),
      path_exists = (\<lambda>s. s \<noteq> ''missing.png''),
      scandir = (\<lambda>s. if s = ''pics'' then [''a.jpg'', ''bad.jpg'', ''b.PNG'', ''c.Jpg'', ''notes.txt'']
                      else []),
      glob_glob = (\<lambda>s. []),
      stdin = [],
      parse_args = demo_parse\<rparr>"

text \<open>The same with a full disk, and the same with a terminal that cannot encode the marks.\<close>

definition demo_env_full_disk :: env where
  "demo_env_full_disk = demo_env\<lparr>encode_error := (\<lambda>f d. Some (OSError ''No space left on device''))\<rparr>"

definition demo_env_ascii_stdout :: env where
  "demo_env_ascii_stdout =
     demo_env\<lparr>print_error :=
       (\<lambda>m. case m of
               Converted a b \<Rightarrow> Some UnicodeEncodeError
             | ErrorConverting a x \<Rightarrow> Some UnicodeEncodeError
             | CreatedMultiPage a n \<Rightarrow> Some UnicodeEncodeError
             | ErrorCreatingMultiPage x \<Rightarrow> Some UnicodeEncodeError
             | _ \<Rightarrow> None)\<rparr>"

text \<open>
  Following the words of the specification of the directory scan: the extension of a file
  name, compared case-insensitively, is in the registry.
\<close>

definition extension_in_registry_ci :: "string \<Rightarrow> bool" where
  "extension_in_registry_ci n =
     (lower (path_suffix \<lparr>root = [], names = [n]\<rparr>) \<in> set get_supported_formats)"

section \<open>Normalisation and the loading loop\<close>

lemma color_normalize_mode_size:
  "color_normalize e im = Inr out \<Longrightarrow> mode out = ''RGB'' \<and> size_px out = size_px im"
  by (auto simp: color_normalize_def convert_def paste_def split_last_def Image_new_def Let_def
      split: if_splits option.splits sum.splits)

lemma color_normalize_succeeds_iff:
  "(\<exists>out. color_normalize e im = Inr out) \<longleftrightarrow>
     (mode im = ''RGB'' \<or>
      (load e im = None \<and>
       (mode im \<in> set [''RGBA'', ''LA'']
        \<or> convert_error e im (if mode im = ''P'' then ''RGBA'' else ''RGB'') = None)))"
  by (auto simp: color_normalize_def convert_def paste_def split_last_def Image_new_def Let_def
      load_def split: if_splits option.splits sum.splits)

lemma thumbnail_mode: "thumbnail e im box = Inr im' \<Longrightarrow> mode im' = mode im"
  by (auto simp: thumbnail_def Let_def split: if_splits option.splits)

lemma prepare_Inr:
  "prepare e p a4 = Inr im \<Longrightarrow>
     \<exists>raw n. image_open e (fspath p) = Inr raw \<and> color_normalize e raw = Inr n
       \<and> (if a4 then thumbnail e n a4_size = Inr im else im = n)"
  by (auto simp: prepare_def split: sum.splits if_splits)

lemma prepare_mode: "prepare e p a4 = Inr im \<Longrightarrow> mode im = ''RGB''"
proof -
  assume "prepare e p a4 = Inr im"
  then obtain raw n where n: "color_normalize e raw = Inr n"
    and im: "if a4 then thumbnail e n a4_size = Inr im else im = n"
    using prepare_Inr by blast
  from color_normalize_mode_size[OF n] have "mode n = ''RGB''" by simp
  with im show ?thesis by (cases a4) (auto dest: thumbnail_mode)
qed

lemma prepare_ok:
  "image_open e (fspath p) = Inr raw \<Longrightarrow> color_normalize e raw = Inr n \<Longrightarrow>
   (if a4 then thumbnail e n a4_size = Inr im else im = n) \<Longrightarrow> prepare e p a4 = Inr im"
  by (auto simp: prepare_def split: if_splits)

lemma load_images_Inr:
  "load_images e a4 ps acc = Inr imgs \<Longrightarrow>
     \<exists>new. imgs = acc @ new \<and> map (\<lambda>p. prepare e p a4) ps = map Inr new"
proof (induction ps arbitrary: acc)
  case Nil
  then show ?case by simp
next
  case (Cons p ps)
  then obtain img where p: "prepare e p a4 = Inr img"
    and rest: "load_images e a4 ps (acc @ [img]) = Inr imgs"
    by (auto split: sum.splits)
  from Cons.IH[OF rest] obtain new where "imgs = (acc @ [img]) @ new"
    "map (\<lambda>p. prepare e p a4) ps = map Inr new" by blast
  with p show ?case by (intro exI[of _ "img # new"]) simp
qed


lemma load_images_ok:
  "map (\<lambda>p. prepare e p a4) ps = map Inr new \<Longrightarrow> load_images e a4 ps acc = Inr (acc @ new)"
  by (induction ps arbitrary: acc new) (auto split: sum.splits)

lemma all_Inr_map: "(\<forall>p \<in> set ps. \<exists>im. f p = Inr im) \<Longrightarrow> \<exists>new. map f ps = map Inr new"
proof (induction ps)
  case Nil
  then show ?case by simp
next
  case (Cons p ps)
  then obtain im new where "f p = Inr im" "map f ps = map Inr new" by auto
  then have "map f (p # ps) = map Inr (im # new)" by simp
  then show ?case by blast
qed

section \<open>Saving and printing\<close>

lemma save_cases:
  "save e first rest all f q
      = (Inr (), [Open_output f,
                  Write f \<lparr>images = first # rest, save_all = all, resolution = 100, pdf_quality = q\<rparr>])
   \<or> (\<exists>x. save e first rest all f q = (Inl (Raised x), []))
   \<or> (\<exists>x. save e first rest all f q = (Inl (Raised x), [Open_output f]))"
  by (simp add: save_def Let_def split: option.splits)

lemma save_Write:
  "Write g d \<in> set (snd (save e first rest all f q)) \<Longrightarrow>
     g = f \<and> d = \<lparr>images = first # rest, save_all = all, resolution = 100, pdf_quality = q\<rparr>
     \<and> save e first rest all f q = (Inr (), [Open_output f, Write f d])"
  using save_cases[of e first rest all f q] by auto

lemma save_Open:
  "Open_output g \<in> set (snd (save e first rest all f q)) \<Longrightarrow> g = f"
  using save_cases[of e first rest all f q] by auto

lemma save_no_exit: "fst (save e first rest all f q) \<noteq> Inl (Exit c)"
  using save_cases[of e first rest all f q] by auto

text \<open>The handler of both converters: print the error line, then go on with \<open>v\<close>.\<close>

lemma report_cases:
  "and_then (print_line e m) (\<lambda>_. ret v)
     = (case print_error e m of Some y \<Rightarrow> (Inl (Raised y), []) | None \<Rightarrow> (Inr v, [Print m]))"
  by (simp add: and_then_def print_line_def ret_def split: option.splits)

lemma single_unfold:
  "convert_image_to_pdf e p po rs q =
     (case prepare e p rs of
        Inl x \<Rightarrow> and_then (print_line e (ErrorConverting (fspath p) x)) (\<lambda>_. ret None)
      | Inr im \<Rightarrow>
          (case output_path p po of
             Inl x \<Rightarrow> and_then (print_line e (ErrorConverting (fspath p) x)) (\<lambda>_. ret None)
           | Inr out \<Rightarrow>
               (case save e im [] False (fspath out) (Some q) of
                  (Inl (Raised x), evs) \<Rightarrow>
                    (case and_then (print_line e (ErrorConverting (fspath p) x)) (\<lambda>_. ret None) of
                       (r, evs') \<Rightarrow> (r, evs @ evs'))
                | (Inl (Exit c), evs) \<Rightarrow> (Inl (Exit c), evs)
                | (Inr u, evs) \<Rightarrow>
                    (case print_error e (Converted (name (as_Path p)) (name (as_Path out))) of
                       None \<Rightarrow> (Inr (Some out),
                                 evs @ [Print (Converted (name (as_Path p)) (name (as_Path out)))])
                     | Some x \<Rightarrow>
                         (case and_then (print_line e (ErrorConverting (fspath p) x)) (\<lambda>_. ret None) of
                            (r, evs') \<Rightarrow> (r, evs @ evs'))))))"
  by (auto simp: convert_image_to_pdf_def try_except_def and_then_def lift_def ret_def print_line_def
      split: sum.splits prod.splits option.splits abort.splits)

lemma demo_simps:
  "image_open demo_env = demo_open" "convert_error demo_env = (\<lambda>im m. None)"
  "open_error demo_env = (\<lambda>f. None)" "encode_error demo_env = (\<lambda>f d. None)"
  "print_error demo_env = (\<lambda>m. None)" "parse_args demo_env = demo_parse"
  "load_error demo_env = (\<lambda>s. if s = ''cut.jpg'' then Some (OSError ''image file is truncated'') else None)"
  "thumbnail_size demo_env = (\<lambda>sz box. if fst sz \<le> fst box \<and> snd sz \<le> snd box then sz else box)"
  by (simp_all add: demo_env_def)

section \<open>The multi-image combiner\<close>

lemma multi_unfold:
  "convert_multiple_images_to_pdf e ps out rs q =
     (case load_images e rs ps [] of
        Inl x \<Rightarrow> and_then (print_line e (ErrorCreatingMultiPage x)) (\<lambda>_. ret False)
      | Inr imgs \<Rightarrow>
          (case imgs of
             [] \<Rightarrow> (Inr False, [])
           | first # rest \<Rightarrow>
               (case save e first rest True (fspath out) (Some q) of
                  (Inl (Raised x), evs) \<Rightarrow>
                    (case and_then (print_line e (ErrorCreatingMultiPage x)) (\<lambda>_. ret False) of
                       (r, evs') \<Rightarrow> (r, evs @ evs'))
                | (Inl (Exit c), evs) \<Rightarrow> (Inl (Exit c), evs)
                | (Inr u, evs) \<Rightarrow>
                    (case print_error e (CreatedMultiPage (fspath out) (length imgs)) of
                       None \<Rightarrow> (Inr True, evs @ [Print (CreatedMultiPage (fspath out) (length imgs))])
                     | Some x \<Rightarrow>
                         (case and_then (print_line e (ErrorCreatingMultiPage x)) (\<lambda>_. ret False) of
                            (r, evs') \<Rightarrow> (r, evs @ evs'))))))"
  by (auto simp: convert_multiple_images_to_pdf_def try_except_def and_then_def lift_def ret_def
      print_line_def split: sum.splits prod.splits option.splits abort.splits list.splits)

lemma report_events:
  "ev \<in> set (snd (and_then (print_line e m) (\<lambda>_. ret v))) \<Longrightarrow> ev = Print m"
  by (auto simp: report_cases split: option.splits)







section \<open>The colour normaliser\<close>

lemma single_Write:
  assumes "Write f d \<in> set (snd (convert_image_to_pdf e p po rs q))"
  shows "\<exists>im out. prepare e p rs = Inr im \<and> output_path p po = Inr out \<and> f = fspath out
           \<and> d = \<lparr>images = [im], save_all = False, resolution = 100, pdf_quality = Some q\<rparr>
           \<and> save e im [] False (fspath out) (Some q) = (Inr (), [Open_output f, Write f d])"
proof (cases "prepare e p rs")
  case (Inl x)
  with assms show ?thesis by (auto simp: single_unfold dest: report_events)
next
  case (Inr im)
  show ?thesis
  proof (cases "output_path p po")
    case (Inl x)
    with Inr assms show ?thesis by (auto simp: single_unfold dest: report_events)
  next
    case out: (Inr out)
    from save_cases[of e im "[]" False "fspath out" "Some q"] Inr out assms
    show ?thesis
      by (auto simp: single_unfold report_cases split: option.splits)
  qed
qed

lemma multi_Write:
  assumes "Write f d \<in> set (snd (convert_multiple_images_to_pdf e ps out rs q))"
  shows "\<exists>imgs. load_images e rs ps [] = Inr imgs \<and> imgs \<noteq> [] \<and> f = fspath out
           \<and> d = \<lparr>images = imgs, save_all = True, resolution = 100, pdf_quality = Some q\<rparr>"
proof (cases "load_images e rs ps []")
  case (Inl x)
  with assms show ?thesis by (auto simp: multi_unfold dest: report_events)
next
  case (Inr imgs)
  show ?thesis
  proof (cases imgs)
    case Nil
    with Inr assms show ?thesis by (simp add: multi_unfold)
  next
    case (Cons first rest)
    from save_cases[of e first rest True "fspath out" "Some q"] Inr Cons assms
    show ?thesis
      by (auto simp: multi_unfold report_cases split: option.splits)
  qed
qed

lemma simple_unfold:
  "simple_convert e s =
     (if path_exists e s then
        (case image_open e s of
           Inl x \<Rightarrow> print_line e (SimpleError s x)
         | Inr img \<Rightarrow>
             (case color_normalize e img of
                Inl x \<Rightarrow> print_line e (SimpleError s x)
              | Inr img' \<Rightarrow>
                  (case save e img' [] False (splitext_root s @ ''.pdf'') None of
                     (Inl (Raised x), evs) \<Rightarrow>
                       (case print_line e (SimpleError s x) of (r, evs') \<Rightarrow> (r, evs @ evs'))
                   | (Inl (Exit c), evs) \<Rightarrow> (Inl (Exit c), evs)
                   | (Inr u, evs) \<Rightarrow>
                       (case print_error e (SimpleConverted (basename s)
                                             (basename (splitext_root s @ ''.pdf''))) of
                          None \<Rightarrow> (Inr (), evs @ [Print (SimpleConverted (basename s)
                                             (basename (splitext_root s @ ''.pdf'')))])
                        | Some x \<Rightarrow>
                            (case print_line e (SimpleError s x) of (r, evs') \<Rightarrow> (r, evs @ evs'))))))
      else print_line e (SimpleNotFound s))"
  by (auto simp: simple_convert_def try_except_def and_then_def lift_def ret_def print_line_def Let_def
      split: sum.splits prod.splits option.splits abort.splits)

lemma print_line_events: "ev \<in> set (snd (print_line e m)) \<Longrightarrow> ev = Print m"
  by (auto simp: print_line_def split: option.splits)

lemma simple_Write:
  assumes "Write f d \<in> set (snd (simple_convert e s))"
  shows "\<exists>raw n. image_open e s = Inr raw \<and> color_normalize e raw = Inr n \<and> images d = [n]"
proof -
  from assms have ex: "path_exists e s"
    by (auto simp: simple_unfold dest: print_line_events split: if_splits)
  show ?thesis
  proof (cases "image_open e s")
    case (Inl x)
    with assms ex show ?thesis by (auto simp: simple_unfold dest: print_line_events)
  next
    case raw: (Inr raw)
    show ?thesis
    proof (cases "color_normalize e raw")
      case (Inl x)
      with raw assms ex show ?thesis by (auto simp: simple_unfold dest: print_line_events)
    next
      case (Inr n)
      from save_cases[of e n "[]" False "splitext_root s @ ''.pdf''" None] raw Inr assms ex
      show ?thesis
        by (auto simp: simple_unfold print_line_def split: option.splits)
    qed
  qed
qed

text \<open>
  Claim C5. Whatever the mode of the source, an image that leaves the colour normaliser is in
  RGB mode and has the size of the source; the normaliser produces one exactly when the
  source is RGB already, or its pixels decode and the library accepts the one conversion
  asked for (none for RGBA and LA). Every image that any of the three converters hands to
  the PDF encoder is the normalised (and, on request, resized) image of an opened file, and
  is in RGB mode.
\<close>

theorem encoded_images_are_normalized:
  "(color_normalize e im = Inr out \<longrightarrow> mode out = ''RGB'' \<and> size_px out = size_px im)
   \<and> ((\<exists>out. color_normalize e im = Inr out) \<longleftrightarrow>
        (mode im = ''RGB'' \<or>
         (load e im = None \<and>
          (mode im \<in> set [''RGBA'', ''LA'']
           \<or> convert_error e im (if mode im = ''P'' then ''RGBA'' else ''RGB'') = None))))
   \<and> (Write f1 d1 \<in> set (snd (convert_image_to_pdf e p po resize q)) \<longrightarrow>
        (\<exists>raw n pg. image_open e (fspath p) = Inr raw \<and> color_normalize e raw = Inr n
           \<and> (if resize then thumbnail e n a4_size = Inr pg else pg = n)
           \<and> images d1 = [pg] \<and> mode pg = ''RGB''))
   \<and> (Write f2 d2 \<in> set (snd (convert_multiple_images_to_pdf e ps output_pdf resize q)) \<longrightarrow>
        (\<forall>pg \<in> set (images d2). mode pg = ''RGB'' \<and>
           (\<exists>p \<in> set ps. \<exists>raw n. image_open e (fspath p) = Inr raw \<and> color_normalize e raw = Inr n
              \<and> (if resize then thumbnail e n a4_size = Inr pg else pg = n))))
   \<and> (Write f3 d3 \<in> set (snd (simple_convert e s)) \<longrightarrow>
        (\<exists>raw n. image_open e s = Inr raw \<and> color_normalize e raw = Inr n
           \<and> images d3 = [n] \<and> mode n = ''RGB''))"
proof (intro conjI impI)
  assume "color_normalize e im = Inr out"
  then show "mode out = ''RGB''" and "size_px out = size_px im"
    using color_normalize_mode_size by blast+
next
  show "(\<exists>out. color_normalize e im = Inr out) \<longleftrightarrow>
        (mode im = ''RGB'' \<or>
         (load e im = None \<and>
          (mode im \<in> set [''RGBA'', ''LA'']
           \<or> convert_error e im (if mode im = ''P'' then ''RGBA'' else ''RGB'') = None)))"
    by (rule color_normalize_succeeds_iff)
next
  assume "Write f1 d1 \<in> set (snd (convert_image_to_pdf e p po resize q))"
  then obtain pg where pg: "prepare e p resize = Inr pg" "images d1 = [pg]"
    using single_Write by fastforce
  from prepare_Inr[OF pg(1)] prepare_mode[OF pg(1)] pg(2)
  show "\<exists>raw n pg. image_open e (fspath p) = Inr raw \<and> color_normalize e raw = Inr n
           \<and> (if resize then thumbnail e n a4_size = Inr pg else pg = n)
           \<and> images d1 = [pg] \<and> mode pg = ''RGB''"
    by blast
next
  assume w: "Write f2 d2 \<in> set (snd (convert_multiple_images_to_pdf e ps output_pdf resize q))"
  from multi_Write[OF w] obtain imgs where
    "load_images e resize ps [] = Inr imgs" "images d2 = imgs" by auto
  then have m: "map (\<lambda>p. prepare e p resize) ps = map Inr (images d2)"
    by (auto dest: load_images_Inr)
  show "\<forall>pg \<in> set (images d2). mode pg = ''RGB'' \<and>
           (\<exists>p \<in> set ps. \<exists>raw n. image_open e (fspath p) = Inr raw \<and> color_normalize e raw = Inr n
              \<and> (if resize then thumbnail e n a4_size = Inr pg else pg = n))"
  proof
    fix pg assume "pg \<in> set (images d2)"
    then have "Inr pg \<in> set (map (\<lambda>p. prepare e p resize) ps)"
      unfolding m by simp
    then obtain p where p: "p \<in> set ps" "prepare e p resize = Inr pg" by auto
    from prepare_Inr[OF p(2)] prepare_mode[OF p(2)] p(1)
    show "mode pg = ''RGB'' \<and>
           (\<exists>p \<in> set ps. \<exists>raw n. image_open e (fspath p) = Inr raw \<and> color_normalize e raw = Inr n
              \<and> (if resize then thumbnail e n a4_size = Inr pg else pg = n))"
      by blast
  qed
next
  assume "Write f3 d3 \<in> set (snd (simple_convert e s))"
  then obtain raw n where *: "image_open e s = Inr raw" "color_normalize e raw = Inr n" "images d3 = [n]"
    using simple_Write by blast
  with color_normalize_mode_size[OF *(2)]
  show "\<exists>raw n. image_open e s = Inr raw \<and> color_normalize e raw = Inr n
           \<and> images d3 = [n] \<and> mode n = ''RGB''" by blast
qed

theorem encoded_images_are_normalized_witness:
  "color_normalize demo_env \<lparr>mode = ''LA'', size_px = (64, 64), data = FileData ''logo.png'', n_frames = Some 1\<rparr>
     = Inr \<lparr>mode = ''RGB'', size_px = (64, 64),
            data = Paste (Solid (255, 255, 255)) (FileData ''logo.png'') None, n_frames = None\<rparr>
   \<and> load demo_env \<lparr>mode = ''LA'', size_px = (64, 64), data = FileData ''logo.png'', n_frames = Some 1\<rparr> = None
   \<and> Write ''icon.pdf''
        \<lparr>images = [\<lparr>mode = ''RGB'', size_px = (32, 32),
                     data = Paste (Solid (255, 255, 255)) (Conv (FileData ''icon.gif'') ''RGBA'')
                              (Some (LastBand (Conv (FileData ''icon.gif'') ''RGBA''))),
                     n_frames = None\<rparr>],
         save_all = False, resolution = 100, pdf_quality = Some 95\<rparr>
       \<in> set (snd (convert_image_to_pdf demo_env (Str ''icon.gif'') None True 95))
   \<and> Write ''out.pdf''
        \<lparr>images = [\<lparr>mode = ''RGB'', size_px = (2480, 3508),
                     data = Thumbnailed (FileData ''poster.jpg'') (2480, 3508), n_frames = None\<rparr>,
                   \<lparr>mode = ''RGB'', size_px = (100, 200),
                     data = Conv (FileData ''scan.bmp'') ''RGB'', n_frames = None\<rparr>],
         save_all = True, resolution = 100, pdf_quality = Some 95\<rparr>
       \<in> set (snd (convert_multiple_images_to_pdf demo_env [Str ''poster.jpg'', Str ''scan.bmp'']
                      (Str ''out.pdf'') True 95))
   \<and> Write ''logo.pdf''
        \<lparr>images = [\<lparr>mode = ''RGB'', size_px = (64, 64),
                     data = Paste (Solid (255, 255, 255)) (FileData ''logo.png'') None,
                     n_frames = None\<rparr>],
         save_all = False, resolution = 100, pdf_quality = None\<rparr>
       \<in> set (snd (simple_convert demo_env ''logo.png''))
   \<and> (\<exists>raw n. image_open demo_env ''logo.png'' = Inr raw \<and> color_normalize demo_env raw = Inr n
         \<and> mode n = ''RGB'')
   \<and> (\<exists>raw n pg. image_open demo_env (fspath (Str ''icon.gif'')) = Inr raw
         \<and> color_normalize demo_env raw = Inr n
         \<and> thumbnail demo_env n a4_size = Inr pg \<and> mode pg = ''RGB'')"
proof -
  let ?la = "\<lparr>mode = ''LA'', size_px = (64, 64), data = FileData ''logo.png'', n_frames = Some 1\<rparr>"
  let ?out = "\<lparr>mode = ''RGB'', size_px = (64, 64),
            data = Paste (Solid (255, 255, 255)) (FileData ''logo.png'') None, n_frames = None\<rparr>"
  let ?d1 = "\<lparr>images = [\<lparr>mode = ''RGB'', size_px = (32, 32),
                     data = Paste (Solid (255, 255, 255)) (Conv (FileData ''icon.gif'') ''RGBA'')
                              (Some (LastBand (Conv (FileData ''icon.gif'') ''RGBA''))),
                     n_frames = None\<rparr>],
         save_all = False, resolution = 100, pdf_quality = Some 95\<rparr>"
  let ?d2 = "\<lparr>images = [\<lparr>mode = ''RGB'', size_px = (2480, 3508),
                     data = Thumbnailed (FileData ''poster.jpg'') (2480, 3508), n_frames = None\<rparr>,
                   \<lparr>mode = ''RGB'', size_px = (100, 200),
                     data = Conv (FileData ''scan.bmp'') ''RGB'', n_frames = None\<rparr>],
         save_all = True, resolution = 100, pdf_quality = Some 95\<rparr>"
  let ?d3 = "\<lparr>images = [?out], save_all = False, resolution = 100, pdf_quality = None\<rparr>"
  have h1: "color_normalize demo_env ?la = Inr ?out"
    by code_simp
  have h2: "load demo_env ?la = None"
    by code_simp
  have h3: "Write ''icon.pdf'' ?d1
       \<in> set (snd (convert_image_to_pdf demo_env (Str ''icon.gif'') None True 95))"
    by code_simp
  have h4: "Write ''out.pdf'' ?d2
       \<in> set (snd (convert_multiple_images_to_pdf demo_env [Str ''poster.jpg'', Str ''scan.bmp'']
                      (Str ''out.pdf'') True 95))"
    by code_simp
  have h5: "Write ''logo.pdf'' ?d3 \<in> set (snd (simple_convert demo_env ''logo.png''))"
    by code_simp
  note T = encoded_images_are_normalized[where e = demo_env and im = ?la and p = "Str ''icon.gif''"
      and po = None and resize = True and q = 95 and ?f1.0 = "''icon.pdf''" and ?d1.0 = ?d1
      and ps = "[Str ''poster.jpg'', Str ''scan.bmp'']" and output_pdf = "Str ''out.pdf''"
      and ?f2.0 = "''out.pdf''" and ?d2.0 = ?d2 and s = "''logo.png''" and ?f3.0 = "''logo.pdf''"
      and ?d3.0 = ?d3 and out = ?out]
  from T[THEN conjunct2, THEN conjunct2, THEN conjunct2, THEN conjunct2, rule_format, OF h5]
  have c6: "\<exists>raw n. image_open demo_env ''logo.png'' = Inr raw \<and> color_normalize demo_env raw = Inr n
         \<and> mode n = ''RGB''"
    by blast
  from T[THEN conjunct2, THEN conjunct2, THEN conjunct1, rule_format, OF h3]
  obtain raw n pg where "image_open demo_env (fspath (Str ''icon.gif'')) = Inr raw"
    "color_normalize demo_env raw = Inr n"
    "if True then thumbnail demo_env n a4_size = Inr pg else pg = n" "mode pg = ''RGB''"
    by blast
  then have c7: "\<exists>raw n pg. image_open demo_env (fspath (Str ''icon.gif'')) = Inr raw
         \<and> color_normalize demo_env raw = Inr n
         \<and> thumbnail demo_env n a4_size = Inr pg \<and> mode pg = ''RGB''"
    by (simp del: fspath.simps)
  show ?thesis
    using h1 h2 h3 h4 h5 c6 c7 by (intro conjI)
qed

text \<open>
  Claim C2. For an image with luminance and alpha (mode LA) the normaliser neither builds an
  RGBA image nor passes a mask: once its pixels decode, the image is pasted over the white
  canvas whole, so the alpha channel has no effect on the result.
\<close>

theorem la_pasted_without_mask:
  "color_normalize e \<lparr>mode = ''LA'', size_px = sz, data = px, n_frames = fr\<rparr>
     = (case load e \<lparr>mode = ''LA'', size_px = sz, data = px, n_frames = fr\<rparr> of
          Some x \<Rightarrow> Inl x
        | None \<Rightarrow> Inr \<lparr>mode = ''RGB'', size_px = sz,
                        data = Paste (Solid (255, 255, 255)) px None, n_frames = None\<rparr>)"
  by (simp add: color_normalize_def Image_new_def paste_def split: option.splits)

text \<open>The two sibling modes do get the mask: RGBA directly, a palette after promotion.\<close>

lemma rgba_pasted_with_alpha_mask:
  "color_normalize e \<lparr>mode = ''RGBA'', size_px = sz, data = px, n_frames = fr\<rparr>
     = (case load e \<lparr>mode = ''RGBA'', size_px = sz, data = px, n_frames = fr\<rparr> of
          Some x \<Rightarrow> Inl x
        | None \<Rightarrow> Inr \<lparr>mode = ''RGB'', size_px = sz,
                        data = Paste (Solid (255, 255, 255)) px (Some (LastBand px)),
                        n_frames = None\<rparr>)"
  by (simp add: color_normalize_def Image_new_def paste_def split_last_def split: option.splits)

lemma palette_promoted_and_masked:
  "load e \<lparr>mode = ''P'', size_px = sz, data = px, n_frames = fr\<rparr> = None \<Longrightarrow>
   convert_error e \<lparr>mode = ''P'', size_px = sz, data = px, n_frames = fr\<rparr> ''RGBA'' = None \<Longrightarrow>
   color_normalize e \<lparr>mode = ''P'', size_px = sz, data = px, n_frames = fr\<rparr>
     = Inr \<lparr>mode = ''RGB'', size_px = sz,
            data = Paste (Solid (255, 255, 255)) (Conv px ''RGBA'')
                     (Some (LastBand (Conv px ''RGBA''))), n_frames = None\<rparr>"
  by (simp add: color_normalize_def Image_new_def paste_def split_last_def convert_def load_def)

section \<open>Pages of the combined document\<close>

lemma multi_success:
  assumes "map (\<lambda>p. prepare e p rs) ps = map Inr imgs" "imgs \<noteq> []"
    and "load e (hd imgs) = None" "open_error e (fspath out) = None"
    and "first_error (map (load e) (tl imgs)) = None"
    and "encode_error e (fspath out)
           \<lparr>images = imgs, save_all = True, resolution = 100, pdf_quality = Some q\<rparr> = None"
    and "print_error e (CreatedMultiPage (fspath out) (length imgs)) = None"
  shows "convert_multiple_images_to_pdf e ps out rs q
     = (Inr True,
        [Open_output (fspath out),
         Write (fspath out) \<lparr>images = imgs, save_all = True, resolution = 100, pdf_quality = Some q\<rparr>,
         Print (CreatedMultiPage (fspath out) (length imgs))])"
proof -
  from assms(2) obtain first rest where fr: "imgs = first # rest" by (cases imgs) auto
  have "load_images e rs ps [] = Inr imgs"
    using load_images_ok[OF assms(1), of "[]"] by simp
  with fr assms(3-7) show ?thesis
    by (simp add: multi_unfold save_def Let_def)
qed

lemma page_count_all: "save_all d \<Longrightarrow> page_count d = sum_list (map frames_of (images d))"
  by (simp add: page_count_def pdf_pages_def length_concat comp_def)

lemma concat_single_frames:
  "\<forall>im \<in> set ims. n_frames im = None \<or> n_frames im = Some 1 \<Longrightarrow>
     concat (map (\<lambda>im. map (\<lambda>i. (im, i)) [0 ..< frames_of im]) ims) = map (\<lambda>im. (im, 0)) ims"
  by (induction ims) (auto simp: frames_of_def)

lemma single_frame_pages:
  "save_all d \<Longrightarrow> \<forall>im \<in> set (images d). n_frames im = None \<or> n_frames im = Some 1 \<Longrightarrow>
     pdf_pages d = map (\<lambda>im. (im, 0)) (images d)"
  by (simp add: pdf_pages_def concat_single_frames)

lemma combiner_single_frame_pages:
  assumes "Write f d \<in> set (snd (convert_multiple_images_to_pdf e ps out rs q))"
    and "\<forall>im \<in> set (images d). n_frames im = None \<or> n_frames im = Some 1"
  shows "page_count d = length ps
         \<and> map (\<lambda>p. prepare e p rs) ps = map (\<lambda>pg. Inr (fst pg)) (pdf_pages d)"
proof -
  from multi_Write[OF assms(1)] obtain imgs where
    imgs: "load_images e rs ps [] = Inr imgs" "images d = imgs" "save_all d" by auto
  then have m: "map (\<lambda>p. prepare e p rs) ps = map Inr (images d)"
    by (auto dest: load_images_Inr)
  have pg: "pdf_pages d = map (\<lambda>im. (im, 0)) (images d)"
    using single_frame_pages[OF imgs(3) assms(2)] .
  have "length (images d) = length ps" using m by (metis length_map)
  with pg m show ?thesis by (simp add: page_count_def comp_def)
qed

text \<open>
  Claim C7. The combiner passes \<open>save_all=True\<close> and appends an RGB file as it was
  opened, so a file with several frames makes one page for each frame: two input images,
  one of them a scan of two pages, give a document of three pages, while the combiner
  prints that it made two.
\<close>

theorem multi_frame_input_makes_extra_pages:
  "convert_multiple_images_to_pdf demo_env [Str ''a.jpg'', Str ''scan.tiff''] (Str ''out.pdf'') False 95
     = (Inr True,
        [Open_output ''out.pdf'',
         Write ''out.pdf''
           \<lparr>images = [\<lparr>mode = ''RGB'', size_px = (640, 480), data = FileData ''a.jpg'', n_frames = None\<rparr>,
                      \<lparr>mode = ''RGB'', size_px = (1240, 1754), data = FileData ''scan.tiff'',
                         n_frames = Some 2\<rparr>],
            save_all = True, resolution = 100, pdf_quality = Some 95\<rparr>,
         Print (CreatedMultiPage ''out.pdf'' 2)])
   \<and> length [Str ''a.jpg'', Str ''scan.tiff''] = 2
   \<and> page_count
        \<lparr>images = [\<lparr>mode = ''RGB'', size_px = (640, 480), data = FileData ''a.jpg'', n_frames = None\<rparr>,
                   \<lparr>mode = ''RGB'', size_px = (1240, 1754), data = FileData ''scan.tiff'',
                      n_frames = Some 2\<rparr>],
         save_all = True, resolution = 100, pdf_quality = Some 95\<rparr> = 3
   \<and> map (\<lambda>(im, i). (data im, i))
        (pdf_pages
          \<lparr>images = [\<lparr>mode = ''RGB'', size_px = (640, 480), data = FileData ''a.jpg'', n_frames = None\<rparr>,
                     \<lparr>mode = ''RGB'', size_px = (1240, 1754), data = FileData ''scan.tiff'',
                        n_frames = Some 2\<rparr>],
           save_all = True, resolution = 100, pdf_quality = Some 95\<rparr>)
       = [(FileData ''a.jpg'', 0), (FileData ''scan.tiff'', 0), (FileData ''scan.tiff'', 1)]"
  by code_simp

section \<open>The driver: dispatch\<close>

lemma main_parser_exit: "parse_args e argv = (Inl x, evs) \<Longrightarrow> main e argv = (Inl x, evs)"
  by (simp add: main_def and_then_def)

text \<open>
  Claim C10, amended. When the parser accepts the command line (so after \<open>-h\<close> or a
  usage error the claim does not apply), at least one argument was given, no input was
  given (absent or empty) and \<open>--list-formats\<close> is not set, \<open>main\<close> matches no branch:
  it prints nothing, converts nothing, asks nothing and returns.
\<close>

theorem options_without_input_do_nothing:
  "parse_args e argv = (Inr a, evs) \<Longrightarrow> \<not> truthy (input_arg a) \<Longrightarrow> \<not> list_formats a \<Longrightarrow>
   argv \<noteq> [] \<Longrightarrow> main e argv = (Inr (), evs)"
  by (simp add: main_def and_then_def ret_def)

theorem options_without_input_do_nothing_witness:
  "parse_args demo_env [''-a4'', ''-q'', ''80'']
     = (Inr (demo_args\<lparr>resize_a4 := True, quality := 80\<rparr>), [])
   \<and> \<not> truthy (input_arg (demo_args\<lparr>resize_a4 := True, quality := 80\<rparr>))
   \<and> \<not> list_formats (demo_args\<lparr>resize_a4 := True, quality := 80\<rparr>)
   \<and> [''-a4'', ''-q'', ''80''] \<noteq> []
   \<and> main demo_env [''-a4'', ''-q'', ''80''] = (Inr (), [])"
proof -
  have h: "parse_args demo_env [''-a4'', ''-q'', ''80'']
     = (Inr (demo_args\<lparr>resize_a4 := True, quality := 80\<rparr>), [])"
    "\<not> truthy (input_arg (demo_args\<lparr>resize_a4 := True, quality := 80\<rparr>))"
    "\<not> list_formats (demo_args\<lparr>resize_a4 := True, quality := 80\<rparr>)"
    "[''-a4'', ''-q'', ''80''] \<noteq> []"
    by (simp_all add: demo_simps demo_parse_def demo_args_def truthy_def)
  from h options_without_input_do_nothing[OF h] show ?thesis by (intro conjI)
qed

text \<open>
  The claim as stated covers every option flag; \<open>-l\<close> is one, and with it alone the
  driver prints the registry.
\<close>

theorem list_formats_flag_prints:
  "parse_args demo_env [''-l''] = (Inr (demo_args\<lparr>list_formats := True\<rparr>), [])
   \<and> \<not> truthy (input_arg (demo_args\<lparr>list_formats := True\<rparr>))
   \<and> [''-l''] \<noteq> []
   \<and> main demo_env [''-l'']
       = (Inr (),
          [Print SupportedFormatsHeader, Print (FormatLine ''.jpg''), Print (FormatLine ''.jpeg''),
           Print (FormatLine ''.png''), Print (FormatLine ''.bmp''), Print (FormatLine ''.gif''),
           Print (FormatLine ''.tiff''), Print (FormatLine ''.webp'')])"
  by code_simp

text \<open>
  On \<open>-h\<close> the parser prints the help and exits, on a command line it rejects it
  prints the usage and exits; \<open>main\<close> ends with it.
\<close>

lemma help_flag_exits: "main demo_env [''-h''] = (Inl (Exit 0), [Print Help])"
  by code_simp

lemma usage_error_exits:
  "main demo_env [''-q'', ''abc''] = (Inl (Exit 2), [Print (UsageError [''-q'', ''abc''])])"
  by code_simp

text \<open>Another flag beside \<open>-l\<close> changes nothing: the registry is printed.\<close>

lemma list_formats_with_other_flag:
  "main demo_env [''-a4'', ''-l'']
     = (Inr (),
        [Print SupportedFormatsHeader, Print (FormatLine ''.jpg''), Print (FormatLine ''.jpeg''),
         Print (FormatLine ''.png''), Print (FormatLine ''.bmp''), Print (FormatLine ''.gif''),
         Print (FormatLine ''.tiff''), Print (FormatLine ''.webp'')])"
  by code_simp

section \<open>The driver: directory scan\<close>

lemma upper_formats:
  "map upper get_supported_formats = [''.JPG'', ''.JPEG'', ''.PNG'', ''.BMP'', ''.GIF'', ''.TIFF'', ''.WEBP'']"
  by (simp add: get_supported_formats_def upper_def upper_char_def ascii_lowercase_def
      ascii_uppercase_def)

text \<open>
  Claim C3, amended. The paths selected by the directory scan are exactly the entries of the
  directory whose name ends with a registry extension written all in lower case or all in
  upper case.
\<close>

theorem scan_selects_lower_or_upper:
  "set (scan_directory e p) =
     (\<lambda>n. p\<lparr>names := names p @ [n]\<rparr>) `
       {n \<in> set (scandir e (str_path p)).
          \<exists>x \<in> set [''.jpg'', ''.jpeg'', ''.png'', ''.bmp'', ''.gif'', ''.tiff'', ''.webp'',
                     ''.JPG'', ''.JPEG'', ''.PNG'', ''.BMP'', ''.GIF'', ''.TIFF'', ''.WEBP''].
            endswith n x}"
proof -
  have "set (scan_directory e p) =
      (\<Union>fmt \<in> set get_supported_formats. set (glob_star e p fmt) \<union> set (glob_star e p (upper fmt)))"
    by (simp add: scan_directory_def)
  also have "\<dots> = (\<lambda>n. p\<lparr>names := names p @ [n]\<rparr>) `
       {n \<in> set (scandir e (str_path p)).
          \<exists>x \<in> set get_supported_formats \<union> set (map upper get_supported_formats). endswith n x}"
    by (auto simp: glob_star_def)
  also have "set get_supported_formats \<union> set (map upper get_supported_formats)
      = set [''.jpg'', ''.jpeg'', ''.png'', ''.bmp'', ''.gif'', ''.tiff'', ''.webp'',
                     ''.JPG'', ''.JPEG'', ''.PNG'', ''.BMP'', ''.GIF'', ''.TIFF'', ''.WEBP'']"
  proof -
    have "get_supported_formats @ map upper get_supported_formats
      = [''.jpg'', ''.jpeg'', ''.png'', ''.bmp'', ''.gif'', ''.tiff'', ''.webp'',
                     ''.JPG'', ''.JPEG'', ''.PNG'', ''.BMP'', ''.GIF'', ''.TIFF'', ''.WEBP'']"
      unfolding upper_formats by (simp add: get_supported_formats_def)
    then show ?thesis by (metis set_append)
  qed
  finally show ?thesis .
qed

text \<open>
  An entry with a mixed-case extension is in the subset the claim describes and is not
  selected.
\<close>

theorem mixed_case_extension_not_selected:
  "''c.Jpg'' \<in> set (scandir demo_env (str_path (Path ''pics'')))
   \<and> extension_in_registry_ci ''c.Jpg''
   \<and> scan_directory demo_env (Path ''pics'')
       = [\<lparr>root = [], names = [''pics'', ''a.jpg'']\<rparr>,
          \<lparr>root = [], names = [''pics'', ''bad.jpg'']\<rparr>,
          \<lparr>root = [], names = [''pics'', ''b.PNG'']\<rparr>]"
  by code_simp

section \<open>The driver: combining a directory\<close>

text \<open>
  Claim C4. With \<open>--directory\<close> on an existing directory and \<open>--multi\<close> given
  an empty name, nothing is combined and no \<open>combined.pdf\<close> is written: the files are
  converted one by one.
\<close>

theorem empty_multi_name_converts_individually:
  "parse_args demo_env [''-d'', ''pics'', ''-m'', []]
     = (Inr (demo_args\<lparr>input_arg := Some ''pics'', directory := True, multi := Some []\<rparr>), [])
   \<and> main demo_env [''-d'', ''pics'', ''-m'', []]
     = (Inr (),
        [Print (FoundImages 3),
         Open_output ''pics/a.pdf'',
         Write ''pics/a.pdf''
           \<lparr>images = [\<lparr>mode = ''RGB'', size_px = (640, 480), data = FileData ''pics/a.jpg'',
                        n_frames = None\<rparr>],
            save_all = False, resolution = 100, pdf_quality = Some 95\<rparr>,
         Print (Converted ''a.jpg'' ''a.pdf''),
         Print (ErrorConverting ''pics/bad.jpg'' (UnidentifiedImageError ''pics/bad.jpg'')),
         Open_output ''pics/b.pdf'',
         Write ''pics/b.pdf''
           \<lparr>images = [\<lparr>mode = ''RGB'', size_px = (640, 480), data = FileData ''pics/b.PNG'',
                        n_frames = None\<rparr>],
            save_all = False, resolution = 100, pdf_quality = Some 95\<rparr>,
         Print (Converted ''b.PNG'' ''b.pdf'')])"
  by code_simp

text \<open>
  In the directory branch a combined document is only ever written under the name that was
  given; the default name is out of reach.
\<close>

lemma directory_writes_go_to_given_name:
  assumes "parse_args e argv = (Inr a, [])" "directory a" "truthy (input_arg a)" "\<not> list_formats a"
    "truthy (multi a)" "Write f d \<in> set (snd (main e argv))"
  shows "f = arg_value (multi a)"
proof -
  let ?files = "scan_directory e (Path (arg_value (input_arg a)))"
  let ?M = "convert_multiple_images_to_pdf e (map PathObj ?files) (Str (arg_value (multi a)))
              (resize_a4 a) (quality a)"
  from assms have "Write f d \<in> set (snd ?M)"
    by (auto simp: main_def and_then_def ret_def print_line_def Let_def
        split: if_splits option.splits prod.splits sum.splits)
  from multi_Write[OF this] show ?thesis by auto
qed

section \<open>The default output path\<close>





















section \<open>Failures of single conversions\<close>

lemma single_prepare_fails:
  "prepare e p rs = Inl x \<Longrightarrow>
     convert_image_to_pdf e p po rs q
       = (case print_error e (ErrorConverting (fspath p) x) of
            None \<Rightarrow> (Inr None, [Print (ErrorConverting (fspath p) x)])
          | Some y \<Rightarrow> (Inl (Raised y), []))"
  by (simp add: single_unfold report_cases split: option.splits)

lemma single_naming_fails:
  "prepare e p rs = Inr im \<Longrightarrow> output_path p po = Inl x \<Longrightarrow>
     convert_image_to_pdf e p po rs q
       = (case print_error e (ErrorConverting (fspath p) x) of
            None \<Rightarrow> (Inr None, [Print (ErrorConverting (fspath p) x)])
          | Some y \<Rightarrow> (Inl (Raised y), []))"
  by (simp add: single_unfold report_cases split: option.splits)

lemma single_save_fails:
  "prepare e p rs = Inr im \<Longrightarrow> output_path p po = Inr out \<Longrightarrow>
   save e im [] False (fspath out) (Some q) = (Inl (Raised x), evs) \<Longrightarrow>
     convert_image_to_pdf e p po rs q
       = (case print_error e (ErrorConverting (fspath p) x) of
            None \<Rightarrow> (Inr None, evs @ [Print (ErrorConverting (fspath p) x)])
          | Some y \<Rightarrow> (Inl (Raised y), evs))"
  by (simp add: single_unfold report_cases split: option.splits)

lemma save_encode_fails:
  "load e im = None \<Longrightarrow> open_error e f = None \<Longrightarrow>
   encode_error e f \<lparr>images = [im], save_all = False, resolution = 100, pdf_quality = q\<rparr> = Some x \<Longrightarrow>
     save e im [] False f q = (Inl (Raised x), [Open_output f])"
  by (simp add: save_def Let_def)

lemma single_None_reported:
  assumes "fst (convert_image_to_pdf e p po rs q) = Inr None"
  shows "\<exists>x evs. snd (convert_image_to_pdf e p po rs q) = evs @ [Print (ErrorConverting (fspath p) x)]"
proof (cases "prepare e p rs")
  case (Inl x)
  with assms show ?thesis by (auto simp: single_unfold report_cases split: option.splits)
next
  case (Inr im)
  show ?thesis
  proof (cases "output_path p po")
    case (Inl x)
    with Inr assms show ?thesis by (auto simp: single_unfold report_cases split: option.splits)
  next
    case o: (Inr out)
    from save_cases[of e im "[]" False "fspath out" "Some q"] Inr o assms
    show ?thesis
      by (auto simp: single_unfold report_cases split: option.splits)
  qed
qed

lemma single_returns:
  assumes "\<forall>m. print_error e m = None"
  shows "\<exists>r. fst (convert_image_to_pdf e p po rs q) = Inr r"
proof (cases "prepare e p rs")
  case (Inl x)
  with assms show ?thesis by (simp add: single_unfold report_cases)
next
  case (Inr im)
  show ?thesis
  proof (cases "output_path p po")
    case (Inl x)
    with Inr assms show ?thesis by (simp add: single_unfold report_cases)
  next
    case o: (Inr out)
    from save_cases[of e im "[]" False "fspath out" "Some q"] Inr o assms
    show ?thesis
      by (auto simp: single_unfold report_cases)
  qed
qed

lemma endswith_nonempty: "endswith n sfx \<Longrightarrow> sfx \<noteq> [] \<Longrightarrow> n \<noteq> []"
  by (auto simp: endswith_def)

lemma formats_nonempty: "fmt \<in> set get_supported_formats \<Longrightarrow> fmt \<noteq> [] \<and> upper fmt \<noteq> []"
  by (auto simp: get_supported_formats_def upper_def)

lemma scanned_name_nonempty: "f \<in> set (scan_directory e p) \<Longrightarrow> name f \<noteq> []"
  by (auto simp: scan_directory_def glob_star_def name_def
      dest: endswith_nonempty formats_nonempty)

lemma with_suffix_pdf_total: "name f \<noteq> [] \<Longrightarrow> \<exists>pf. with_suffix f ''.pdf'' = Inr pf"
  by (simp add: with_suffix_def Let_def)

lemma convert_each_all:
  assumes "\<forall>m. print_error e m = None"
  shows "map (\<lambda>f. with_suffix f ''.pdf'') files = map Inr pdfs \<Longrightarrow>
     convert_each e files a4 q
       = (Inr (),
          concat (map (\<lambda>(f, pf). snd (convert_image_to_pdf e (PathObj f) (Some (PathObj pf)) a4 q))
                    (zip files pdfs)))"
proof (induction files arbitrary: pdfs)
  case Nil
  then show ?case by simp
next
  case (Cons f files)
  then obtain pf rest where pdfs: "pdfs = pf # rest" "with_suffix f ''.pdf'' = Inr pf"
    "map (\<lambda>f. with_suffix f ''.pdf'') files = map Inr rest"
    by (cases pdfs) auto
  from single_returns[OF assms, of "PathObj f" "Some (PathObj pf)" a4 q]
  obtain r evs where "convert_image_to_pdf e (PathObj f) (Some (PathObj pf)) a4 q = (Inr r, evs)"
    by (metis prod.collapse)
  with Cons.IH[OF pdfs(3)] pdfs(1,2) show ?case by simp
qed

text \<open>
  Claim C8, amended. A single-image conversion in which opening, normalising, resizing,
  naming the output or saving fails prints the error line naming the input and returns
  \<open>None\<close>; it raises only when that very print raises. Whenever it returns \<open>None\<close>
  the error line is the last thing it did. With a standard output that accepts every line
  it never raises, and in directory mode without \<open>--multi\<close> \<open>main\<close> then runs the
  converter on every scanned file in turn, whatever the earlier ones returned, and returns
  normally.
\<close>

theorem failures_are_reported_and_batch_continues:
  "(prepare e p resize = Inl x
    \<or> (\<exists>pim. prepare e p resize = Inr pim \<and> output_path p po = Inl x) \<longrightarrow>
      convert_image_to_pdf e p po resize q
        = (case print_error e (ErrorConverting (fspath p) x) of
             None \<Rightarrow> (Inr None, [Print (ErrorConverting (fspath p) x)])
           | Some y \<Rightarrow> (Inl (Raised y), [])))
   \<and> (prepare e p resize = Inr im \<and> output_path p po = Inr out
       \<and> save e im [] False (fspath out) (Some q) = (Inl (Raised x), evs) \<longrightarrow>
      convert_image_to_pdf e p po resize q
        = (case print_error e (ErrorConverting (fspath p) x) of
             None \<Rightarrow> (Inr None, evs @ [Print (ErrorConverting (fspath p) x)])
           | Some y \<Rightarrow> (Inl (Raised y), evs)))
   \<and> (prepare e p resize = Inr im \<and> output_path p po = Inr out
       \<and> load e im = None \<and> open_error e (fspath out) = None
       \<and> encode_error e (fspath out)
            \<lparr>images = [im], save_all = False, resolution = 100, pdf_quality = Some q\<rparr> = Some x \<longrightarrow>
      convert_image_to_pdf e p po resize q
        = (case print_error e (ErrorConverting (fspath p) x) of
             None \<Rightarrow> (Inr None, [Open_output (fspath out), Print (ErrorConverting (fspath p) x)])
           | Some y \<Rightarrow> (Inl (Raised y), [Open_output (fspath out)])))
   \<and> (fst (convert_image_to_pdf e p po resize q) = Inr None \<longrightarrow>
      (\<exists>y evs'. snd (convert_image_to_pdf e p po resize q)
                  = evs' @ [Print (ErrorConverting (fspath p) y)]))
   \<and> ((\<forall>m. print_error e m = None) \<longrightarrow>
      (\<exists>r. fst (convert_image_to_pdf e p po resize q) = Inr r))
   \<and> ((\<forall>m. print_error e m = None) \<and> parse_args e argv = (Inr a, [])
       \<and> directory a \<and> truthy (input_arg a) \<and> \<not> list_formats a \<and> \<not> truthy (multi a)
       \<and> is_dir e (str_path (Path (arg_value (input_arg a))))
       \<and> scan_directory e (Path (arg_value (input_arg a))) \<noteq> [] \<longrightarrow>
      (\<exists>pdfs. map (\<lambda>f. with_suffix f ''.pdf'') (scan_directory e (Path (arg_value (input_arg a))))
               = map Inr pdfs
         \<and> main e argv
           = (Inr (),
              Print (FoundImages (length (scan_directory e (Path (arg_value (input_arg a)))))) #
              concat (map (\<lambda>(f, pf). snd (convert_image_to_pdf e (PathObj f) (Some (PathObj pf))
                                            (resize_a4 a) (quality a)))
                        (zip (scan_directory e (Path (arg_value (input_arg a)))) pdfs)))))"
proof (intro conjI impI)
  assume "prepare e p resize = Inl x
    \<or> (\<exists>pim. prepare e p resize = Inr pim \<and> output_path p po = Inl x)"
  then show "convert_image_to_pdf e p po resize q
        = (case print_error e (ErrorConverting (fspath p) x) of
             None \<Rightarrow> (Inr None, [Print (ErrorConverting (fspath p) x)])
           | Some y \<Rightarrow> (Inl (Raised y), []))"
    using single_prepare_fails single_naming_fails by blast
next
  assume "prepare e p resize = Inr im \<and> output_path p po = Inr out
       \<and> save e im [] False (fspath out) (Some q) = (Inl (Raised x), evs)"
  then show "convert_image_to_pdf e p po resize q
        = (case print_error e (ErrorConverting (fspath p) x) of
             None \<Rightarrow> (Inr None, evs @ [Print (ErrorConverting (fspath p) x)])
           | Some y \<Rightarrow> (Inl (Raised y), evs))"
    using single_save_fails by blast
next
  assume a: "prepare e p resize = Inr im \<and> output_path p po = Inr out
       \<and> load e im = None \<and> open_error e (fspath out) = None
       \<and> encode_error e (fspath out)
            \<lparr>images = [im], save_all = False, resolution = 100, pdf_quality = Some q\<rparr> = Some x"
  then have "save e im [] False (fspath out) (Some q) = (Inl (Raised x), [Open_output (fspath out)])"
    using save_encode_fails by blast
  with a single_save_fails[of e p resize im po out q x "[Open_output (fspath out)]"]
  show "convert_image_to_pdf e p po resize q
        = (case print_error e (ErrorConverting (fspath p) x) of
             None \<Rightarrow> (Inr None, [Open_output (fspath out), Print (ErrorConverting (fspath p) x)])
           | Some y \<Rightarrow> (Inl (Raised y), [Open_output (fspath out)]))"
    by (simp split: option.splits)
next
  assume "fst (convert_image_to_pdf e p po resize q) = Inr None"
  then show "\<exists>y evs'. snd (convert_image_to_pdf e p po resize q)
                  = evs' @ [Print (ErrorConverting (fspath p) y)]"
    by (rule single_None_reported)
next
  assume "\<forall>m. print_error e m = None"
  then show "\<exists>r. fst (convert_image_to_pdf e p po resize q) = Inr r"
    by (rule single_returns)
next
  let ?files = "scan_directory e (Path (arg_value (input_arg a)))"
  assume h: "(\<forall>m. print_error e m = None) \<and> parse_args e argv = (Inr a, [])
       \<and> directory a \<and> truthy (input_arg a) \<and> \<not> list_formats a \<and> \<not> truthy (multi a)
       \<and> is_dir e (str_path (Path (arg_value (input_arg a)))) \<and> ?files \<noteq> []"
  then have pr: "\<forall>m. print_error e m = None" by blast
  have "\<forall>f \<in> set ?files. \<exists>pf. with_suffix f ''.pdf'' = Inr pf"
    using scanned_name_nonempty with_suffix_pdf_total by blast
  then obtain pdfs where pdfs: "map (\<lambda>f. with_suffix f ''.pdf'') ?files = map Inr pdfs"
    using all_Inr_map[of ?files "\<lambda>f. with_suffix f ''.pdf''"] by blast
  have "main e argv
           = (Inr (),
              Print (FoundImages (length ?files)) #
              concat (map (\<lambda>(f, pf). snd (convert_image_to_pdf e (PathObj f) (Some (PathObj pf))
                                            (resize_a4 a) (quality a)))
                        (zip ?files pdfs)))"
    using h convert_each_all[OF pr pdfs, of "resize_a4 a" "quality a"]
    by (simp add: main_def and_then_def print_line_def Let_def)
  with pdfs show "\<exists>pdfs. map (\<lambda>f. with_suffix f ''.pdf'') ?files = map Inr pdfs
         \<and> main e argv
           = (Inr (),
              Print (FoundImages (length ?files)) #
              concat (map (\<lambda>(f, pf). snd (convert_image_to_pdf e (PathObj f) (Some (PathObj pf))
                                            (resize_a4 a) (quality a)))
                        (zip ?files pdfs)))"
    by blast
qed

theorem failures_are_reported_and_batch_continues_witness:
  "prepare demo_env (Str ''bad.jpg'') False = Inl (UnidentifiedImageError ''bad.jpg'')
   \<and> convert_image_to_pdf demo_env (Str ''bad.jpg'') None False 95
       = (Inr None, [Print (ErrorConverting ''bad.jpg'' (UnidentifiedImageError ''bad.jpg''))])
   \<and> prepare demo_env_full_disk (Str ''a.jpg'') False
       = Inr \<lparr>mode = ''RGB'', size_px = (640, 480), data = FileData ''a.jpg'', n_frames = None\<rparr>
   \<and> output_path (Str ''a.jpg'') None = Inr (PathObj \<lparr>root = [], names = [''a.pdf'']\<rparr>)
   \<and> encode_error demo_env_full_disk ''a.pdf''
        \<lparr>images = [\<lparr>mode = ''RGB'', size_px = (640, 480), data = FileData ''a.jpg'', n_frames = None\<rparr>],
         save_all = False, resolution = 100, pdf_quality = Some 95\<rparr>
       = Some (OSError ''No space left on device'')
   \<and> save demo_env_full_disk
        \<lparr>mode = ''RGB'', size_px = (640, 480), data = FileData ''a.jpg'', n_frames = None\<rparr>
        [] False ''a.pdf'' (Some 95)
       = (Inl (Raised (OSError ''No space left on device'')), [Open_output ''a.pdf''])
   \<and> convert_image_to_pdf demo_env_full_disk (Str ''a.jpg'') None False 95
       = (Inr None,
          [Open_output ''a.pdf'',
           Print (ErrorConverting ''a.jpg'' (OSError ''No space left on device''))])
   \<and> (\<forall>m. print_error demo_env m = None)
   \<and> (\<exists>r. fst (convert_image_to_pdf demo_env (Str ''bad.jpg'') None False 95) = Inr r)
   \<and> parse_args demo_env [''-d'', ''pics''] = (Inr demo_dir_args, [])
   \<and> directory demo_dir_args \<and> truthy (input_arg demo_dir_args)
   \<and> \<not> list_formats demo_dir_args \<and> \<not> truthy (multi demo_dir_args)
   \<and> is_dir demo_env (str_path (Path (arg_value (input_arg demo_dir_args))))
   \<and> scan_directory demo_env (Path (arg_value (input_arg demo_dir_args))) \<noteq> []
   \<and> (\<exists>pdfs. map (\<lambda>f. with_suffix f ''.pdf'')
                 (scan_directory demo_env (Path (arg_value (input_arg demo_dir_args)))) = map Inr pdfs
         \<and> main demo_env [''-d'', ''pics'']
           = (Inr (),
              Print (FoundImages
                (length (scan_directory demo_env (Path (arg_value (input_arg demo_dir_args)))))) #
              concat (map (\<lambda>(f, pf). snd (convert_image_to_pdf demo_env (PathObj f) (Some (PathObj pf))
                                            (resize_a4 demo_dir_args) (quality demo_dir_args)))
                        (zip (scan_directory demo_env (Path (arg_value (input_arg demo_dir_args)))) pdfs))))
   \<and> main demo_env [''-d'', ''pics'']
       = (Inr (),
          [Print (FoundImages 3),
           Open_output ''pics/a.pdf'',
           Write ''pics/a.pdf''
             \<lparr>images = [\<lparr>mode = ''RGB'', size_px = (640, 480), data = FileData ''pics/a.jpg'',
                          n_frames = None\<rparr>],
              save_all = False, resolution = 100, pdf_quality = Some 95\<rparr>,
           Print (Converted ''a.jpg'' ''a.pdf''),
           Print (ErrorConverting ''pics/bad.jpg'' (UnidentifiedImageError ''pics/bad.jpg'')),
           Open_output ''pics/b.pdf'',
           Write ''pics/b.pdf''
             \<lparr>images = [\<lparr>mode = ''RGB'', size_px = (640, 480), data = FileData ''pics/b.PNG'',
                          n_frames = None\<rparr>],
              save_all = False, resolution = 100, pdf_quality = Some 95\<rparr>,
           Print (Converted ''b.PNG'' ''b.pdf'')])"
proof -
  let ?im = "\<lparr>mode = ''RGB'', size_px = (640, 480), data = FileData ''a.jpg'', n_frames = None\<rparr>"
  let ?out = "PathObj \<lparr>root = [], names = [''a.pdf'']\<rparr>"
  let ?x = "OSError ''No space left on device''"
  have h1: "prepare demo_env (Str ''bad.jpg'') False = Inl (UnidentifiedImageError ''bad.jpg'')"
    by code_simp
  have h2: "prepare demo_env_full_disk (Str ''a.jpg'') False = Inr ?im"
    by code_simp
  have h3: "output_path (Str ''a.jpg'') None = Inr ?out"
    by code_simp
  have h4: "load demo_env_full_disk ?im = None" "open_error demo_env_full_disk (fspath ?out) = None"
    by code_simp+
  have h5: "encode_error demo_env_full_disk ''a.pdf''
        \<lparr>images = [?im], save_all = False, resolution = 100, pdf_quality = Some 95\<rparr> = Some ?x"
    by (simp add: demo_env_full_disk_def)
  have h6: "save demo_env_full_disk ?im [] False ''a.pdf'' (Some 95)
       = (Inl (Raised ?x), [Open_output ''a.pdf''])"
    by code_simp
  have pr: "\<forall>m. print_error demo_env m = None"
    by (simp add: demo_simps)
  have h7: "parse_args demo_env [''-d'', ''pics''] = (Inr demo_dir_args, [])"
    by (simp add: demo_simps demo_parse_def)
  have h8: "directory demo_dir_args \<and> truthy (input_arg demo_dir_args)
       \<and> \<not> list_formats demo_dir_args \<and> \<not> truthy (multi demo_dir_args)
       \<and> is_dir demo_env (str_path (Path (arg_value (input_arg demo_dir_args))))
       \<and> scan_directory demo_env (Path (arg_value (input_arg demo_dir_args))) \<noteq> []"
    by code_simp
  note T1 = failures_are_reported_and_batch_continues[where e = demo_env and p = "Str ''bad.jpg''"
      and x = "UnidentifiedImageError ''bad.jpg''" and po = None and resize = False and q = 95
      and a = demo_dir_args and argv = "[''-d'', ''pics'']"]
  note T2 = failures_are_reported_and_batch_continues[where e = demo_env_full_disk
      and p = "Str ''a.jpg''" and im = ?im and out = ?out and po = None and x = ?x
      and resize = False and q = 95 and evs = "[Open_output ''a.pdf'']"]
  from T1[THEN conjunct1] h1 pr
  have c2: "convert_image_to_pdf demo_env (Str ''bad.jpg'') None False 95
       = (Inr None, [Print (ErrorConverting ''bad.jpg'' (UnidentifiedImageError ''bad.jpg''))])"
    by simp
  have pf: "print_error demo_env_full_disk (ErrorConverting ''a.jpg'' ?x) = None"
    by (simp add: demo_env_full_disk_def demo_simps)
  from T2[THEN conjunct2, THEN conjunct2, THEN conjunct1] h2 h3 h4 h5 pf
  have c7: "convert_image_to_pdf demo_env_full_disk (Str ''a.jpg'') None False 95
       = (Inr None, [Open_output ''a.pdf'', Print (ErrorConverting ''a.jpg'' ?x)])"
    by (simp add: str_path_def)
  from T2[THEN conjunct2, THEN conjunct1] h2 h3 h6 pf
  have c7': "convert_image_to_pdf demo_env_full_disk (Str ''a.jpg'') None False 95
       = (Inr None, [Open_output ''a.pdf''] @ [Print (ErrorConverting ''a.jpg'' ?x)])"
    by (simp add: str_path_def)
  from T1[THEN conjunct2, THEN conjunct2, THEN conjunct2, THEN conjunct2, THEN conjunct1] pr
  have c9: "\<exists>r. fst (convert_image_to_pdf demo_env (Str ''bad.jpg'') None False 95) = Inr r"
    by (rule mp)
  from T1[THEN conjunct2, THEN conjunct2, THEN conjunct2, THEN conjunct2, THEN conjunct2] pr h7 h8
  have c10: "\<exists>pdfs. map (\<lambda>f. with_suffix f ''.pdf'')
                 (scan_directory demo_env (Path (arg_value (input_arg demo_dir_args)))) = map Inr pdfs
         \<and> main demo_env [''-d'', ''pics'']
           = (Inr (),
              Print (FoundImages
                (length (scan_directory demo_env (Path (arg_value (input_arg demo_dir_args)))))) #
              concat (map (\<lambda>(f, pf). snd (convert_image_to_pdf demo_env (PathObj f) (Some (PathObj pf))
                                            (resize_a4 demo_dir_args) (quality demo_dir_args)))
                        (zip (scan_directory demo_env (Path (arg_value (input_arg demo_dir_args)))) pdfs)))"
    by blast
  have c11: "main demo_env [''-d'', ''pics'']
       = (Inr (),
          [Print (FoundImages 3),
           Open_output ''pics/a.pdf'',
           Write ''pics/a.pdf''
             \<lparr>images = [\<lparr>mode = ''RGB'', size_px = (640, 480), data = FileData ''pics/a.jpg'',
                          n_frames = None\<rparr>],
              save_all = False, resolution = 100, pdf_quality = Some 95\<rparr>,
           Print (Converted ''a.jpg'' ''a.pdf''),
           Print (ErrorConverting ''pics/bad.jpg'' (UnidentifiedImageError ''pics/bad.jpg'')),
           Open_output ''pics/b.pdf'',
           Write ''pics/b.pdf''
             \<lparr>images = [\<lparr>mode = ''RGB'', size_px = (640, 480), data = FileData ''pics/b.PNG'',
                          n_frames = None\<rparr>],
              save_all = False, resolution = 100, pdf_quality = Some 95\<rparr>,
           Print (Converted ''b.PNG'' ''b.pdf'')])"
    by code_simp
  show ?thesis
    using h1 c2 h2 h3 h5 h6 c7 pr c9 h7 h8 c10 c11 by (intro conjI) blast+
qed

text \<open>
  The print in the handler is not protected: on a standard output that cannot encode the
  marks of the diagnostic the exception leaves the converter, and the batch stops at the
  first file.
\<close>

theorem unprintable_diagnostic_raises:
  "image_open demo_env_ascii_stdout (fspath (Str ''bad.jpg'')) = Inl (UnidentifiedImageError ''bad.jpg'')
   \<and> print_error demo_env_ascii_stdout
        (ErrorConverting ''bad.jpg'' (UnidentifiedImageError ''bad.jpg'')) = Some UnicodeEncodeError
   \<and> convert_image_to_pdf demo_env_ascii_stdout (Str ''bad.jpg'') None False 95
       = (Inl (Raised UnicodeEncodeError), [])
   \<and> main demo_env_ascii_stdout [''-d'', ''pics'']
       = (Inl (Raised UnicodeEncodeError),
          [Print (FoundImages 3), Open_output ''pics/a.pdf'',
           Write ''pics/a.pdf''
             \<lparr>images = [\<lparr>mode = ''RGB'', size_px = (640, 480), data = FileData ''pics/a.jpg'',
                          n_frames = None\<rparr>],
              save_all = False, resolution = 100, pdf_quality = Some 95\<rparr>])"
  by code_simp

end
